theory Spec2Isabelle
  imports Main "HOL-Library.Multiset"
begin

section \<open>Documents of the store\<close>

text \<open>
  The Mongoose schemas of the Form and Response models.  Object ids are kept in their
  canonical string form (what \<open>toString()\<close> yields), since the routes compare them with
  \<open>a.questionId.toString() === question._id.toString()\<close>.  An absent (undefined) field
  is \<open>None\<close>.  Answer values are strings.  Record fields carry a short prefix where the
  source's name is an Isabelle keyword (\<open>text\<close>, \<open>type\<close>) or is used by two schemas.
\<close>

datatype question_type = TextQuestion | MultipleChoice

record question =
  q_id :: string
  q_text :: string
  q_type :: question_type
  q_options :: "string list"
  q_required :: bool
  q_order :: nat

datatype theme = Light | Dark | Blue | Green

record form_settings =
  allowMultipleResponses :: bool
  requireEmail :: bool
  theme :: theme

record form =
  f_id :: string
  title :: string
  description :: "string option"
  creator :: string
  questions :: "question list"
  isActive :: bool
  publicUrl :: "string option"
  settings :: form_settings

record answer =
  questionId :: string
  questionText :: string
  questionType :: question_type
  answer_value :: string

record response =
  r_form :: string
  answers :: "answer list"
  submitterEmail :: "string option"
  submitterName :: "string option"
  ipAddress :: string
  userAgent :: "string option"

record db =
  forms :: "form list"
  responses :: "response list"

section \<open>Request validation (express-validator)\<close>

text \<open>
  The string predicates and sanitizers of the validator library are not part of the
  repository; the routes are modelled over any implementation of them.
\<close>

record validators =
  isMongoId :: "string \<Rightarrow> bool"
  isEmail :: "string \<Rightarrow> bool"
  normalizeEmail :: "string \<Rightarrow> string"
  trim :: "string \<Rightarrow> string"

record raw_answer =
  ra_questionId :: string
  ra_answer :: string

text \<open>The body of \<open>POST /api/responses\<close> together with \<open>req.ip\<close> and the User-Agent header.\<close>

record submit_request =
  formId :: string
  req_answers :: "raw_answer list"
  req_submitterEmail :: "string option"
  req_submitterName :: "string option"
  req_ip :: string
  req_userAgent :: "string option"

text \<open>
  The rule chain of the route: \<open>formId\<close> is a Mongo id, \<open>answers\<close> is an array of at
  least one element, every \<open>answers.*.questionId\<close> is a Mongo id, every
  \<open>answers.*.answer\<close> is not the empty string (\<open>notEmpty()\<close> does not trim), an
  email that is present is an email, a name that is present has at most 100
  characters once trimmed.
\<close>

definition valid_submit_request :: "validators \<Rightarrow> submit_request \<Rightarrow> bool" where
  "valid_submit_request L req \<longleftrightarrow>
     isMongoId L (formId req) \<and>
     req_answers req \<noteq> [] \<and>
     list_all (\<lambda>a. isMongoId L (ra_questionId a)) (req_answers req) \<and>
     list_all (\<lambda>a. ra_answer a \<noteq> []) (req_answers req) \<and>
     (case req_submitterEmail req of None \<Rightarrow> True | Some e \<Rightarrow> isEmail L e) \<and>
     (case req_submitterName req of None \<Rightarrow> True | Some n \<Rightarrow> length (trim L n) \<le> 100)"

section \<open>Submitting a response: \<open>POST /api/responses\<close>\<close>

text \<open>
  What the route answers.  \<open>ValidationErrors\<close> is the 400 reply carrying the
  \<open>errors\<close> array of the rule chain; \<open>FormUnavailable\<close> is the 404 reply
  "Form not found or inactive"; \<open>AnswerCountMismatch\<close>,
  \<open>RequiredQuestionUnanswered\<close>, \<open>InvalidOption\<close> and \<open>DuplicateSubmission\<close> are the
  400 replies with the respective message, the second and third naming the question by
  its text; \<open>Accepted\<close> is the 201 reply, with the record that was saved;
  \<open>ServerError\<close> is the 500 reply of the \<open>catch\<close> block.
\<close>

datatype reply =
    ValidationErrors
  | FormUnavailable
  | AnswerCountMismatch
  | RequiredQuestionUnanswered string
  | InvalidOption string
  | DuplicateSubmission
  | Accepted response
  | ServerError

definition findById :: "db \<Rightarrow> string \<Rightarrow> form option" where
  "findById d fid = find (\<lambda>f. f_id f = fid) (forms d)"

definition find_question :: "question list \<Rightarrow> string \<Rightarrow> question option" where
  "find_question qs qid = find (\<lambda>q. q_id q = qid) qs"

definition find_answer :: "raw_answer list \<Rightarrow> string \<Rightarrow> raw_answer option" where
  "find_answer as qid = find (\<lambda>a. ra_questionId a = qid) as"

text \<open>
  The loop over \<open>form.questions\<close>: the first required question for which \<open>answers.find\<close>
  yields nothing ends the request; the reply names it by its text.
\<close>

fun required_check :: "question list \<Rightarrow> raw_answer list \<Rightarrow> string option" where
  "required_check [] as = None"
| "required_check (q # qs) as =
     (if find_answer as (q_id q) = None \<and> q_required q then Some (q_text q)
      else required_check qs as)"

text \<open>
  The loop over \<open>answers\<close>: the first answer whose question is found, is of type
  multiple-choice and does not list the answer among its options ends the request.
\<close>

fun option_check :: "question list \<Rightarrow> raw_answer list \<Rightarrow> string option" where
  "option_check qs [] = None"
| "option_check qs (a # as) =
     (case find_question qs (ra_questionId a) of
        None \<Rightarrow> option_check qs as
      | Some q \<Rightarrow>
          if q_type q = MultipleChoice \<and> ra_answer a \<notin> set (q_options q)
          then Some (q_text q)
          else option_check qs as)"

text \<open>
  \<open>submitterEmail || req.ip\<close>: the email when it is there and not the empty string,
  the address of the requester otherwise.
\<close>

definition identity_key :: "string option \<Rightarrow> string \<Rightarrow> string" where
  "identity_key email ip =
     (case email of None \<Rightarrow> ip | Some e \<Rightarrow> if e = [] then ip else e)"

text \<open>
  \<open>Response.findOne({ form: formId, submitterEmail: key })\<close>: both conditions are on
  fields of the stored record, the second on its \<open>submitterEmail\<close>.
\<close>

definition findOne_response :: "db \<Rightarrow> string \<Rightarrow> string \<Rightarrow> response option" where
  "findOne_response d fid key =
     find (\<lambda>r. r_form r = fid \<and> submitterEmail r = Some key) (responses d)"

text \<open>
  \<open>answers.map\<close> of the accept path: each answer gets the text and type of its
  question.  Where \<open>form.questions.find\<close> yields nothing, reading \<open>question.text\<close>
  throws; the result is then \<open>None\<close>.
\<close>

fun normalize_answers :: "question list \<Rightarrow> raw_answer list \<Rightarrow> answer list option" where
  "normalize_answers qs [] = Some []"
| "normalize_answers qs (a # as) =
     (case find_question qs (ra_questionId a) of
        None \<Rightarrow> None
      | Some q \<Rightarrow>
          (case normalize_answers qs as of
             None \<Rightarrow> None
           | Some rest \<Rightarrow>
               Some (\<lparr>questionId = ra_questionId a, questionText = q_text q,
                      questionType = q_type q, answer_value = ra_answer a\<rparr> # rest)))"

text \<open>
  The route handler, check by check in the order of the source; the store is returned
  with the reply, changed only on the accept path.  The sanitizers of the rule chain
  rewrite the email and the name of the body before the handler reads them.  Stored
  forms are documents of the Form schema (the text of a question is not empty), so
  saving the record built from them succeeds.
\<close>

definition submit :: "validators \<Rightarrow> db \<Rightarrow> submit_request \<Rightarrow> reply \<times> db" where
  "submit L d req =
     (if \<not> valid_submit_request L req then (ValidationErrors, d)
      else
        let email = map_option (normalizeEmail L) (req_submitterEmail req);
            name = map_option (trim L) (req_submitterName req)
        in
        case findById d (formId req) of
          None \<Rightarrow> (FormUnavailable, d)
        | Some f \<Rightarrow>
            if \<not> isActive f then (FormUnavailable, d)
            else if length (req_answers req) \<noteq> length (questions f)
              then (AnswerCountMismatch, d)
            else
              (case required_check (questions f) (req_answers req) of
                 Some t \<Rightarrow> (RequiredQuestionUnanswered t, d)
               | None \<Rightarrow>
                  (case option_check (questions f) (req_answers req) of
                     Some t \<Rightarrow> (InvalidOption t, d)
                   | None \<Rightarrow>
                      if \<not> allowMultipleResponses (settings f) \<and>
                         findOne_response d (formId req) (identity_key email (req_ip req)) \<noteq> None
                      then (DuplicateSubmission, d)
                      else
                        (case normalize_answers (questions f) (req_answers req) of
                           None \<Rightarrow> (ServerError, d)
                         | Some as \<Rightarrow>
                             let r = \<lparr>r_form = formId req, answers = as,
                                      submitterEmail = email, submitterName = name,
                                      ipAddress = req_ip req, userAgent = req_userAgent req\<rparr>
                             in (Accepted r, d\<lparr>responses := responses d @ [r]\<rparr>)))))"

section \<open>Summary statistics: \<open>GET /api/responses/form/:formId/summary\<close>\<close>

text \<open>
  One entry per question; \<open>answers\<close> of the source is the tally object, kept here as the
  list of its own keys with their values, in the order in which the keys were created.
  A value of the tally is a number or, as seen below, a string.
\<close>

datatype tally_value = Count nat | Text string

record question_summary =
  qs_questionId :: string
  qs_questionText :: string
  qs_questionType :: question_type
  totalAnswers :: nat
  qs_answers :: "(string \<times> tally_value) list"

record summary =
  totalResponses :: nat
  summary_questions :: "question_summary list"

text \<open>
  The tally is created as \<open>{}\<close>, so a key that is not yet its own is read through
  \<open>Object.prototype\<close>: for the names of the methods that every object inherits
  \<open>answers[k]\<close> is a function, whose text is \<open>function k() { [native code] }\<close>
  (\<open>function Object() { [native code] }\<close> for \<open>constructor\<close>); for \<open>__proto__\<close> it is
  the prototype, and the assignment of a string to that key is dropped; for any other key
  it is undefined.
\<close>

definition inherited_functions :: "string list" where
  "inherited_functions =
     [''constructor'', ''hasOwnProperty'', ''isPrototypeOf'', ''propertyIsEnumerable'',
      ''toLocaleString'', ''toString'', ''valueOf'', ''__defineGetter__'',
      ''__defineSetter__'', ''__lookupGetter__'', ''__lookupSetter__'']"

definition function_text :: "string \<Rightarrow> string" where
  "function_text k =
     ''function '' @ (if k = ''constructor'' then ''Object'' else k) @ ''() { [native code] }''"

definition inherited_name :: "string \<Rightarrow> bool" where
  "inherited_name k \<longleftrightarrow> k = ''__proto__'' \<or> k \<in> set inherited_functions"

text \<open>
  \<open>(answers[k] || 0) + 1\<close> for a key that is not yet an own key of the tally: nothing is
  stored for \<open>__proto__\<close>, the text of the function followed by \<open>1\<close> for an inherited
  method, and the number 1 otherwise.
\<close>

definition fresh_value :: "string \<Rightarrow> tally_value option" where
  "fresh_value k =
     (if k = ''__proto__'' then None
      else if k \<in> set inherited_functions then Some (Text (function_text k @ ''1''))
      else Some (Count 1))"

text \<open>
  \<open>(answers[k] || 0) + 1\<close> for an own key: a number counts one more; to a string that is
  not empty \<open>1\<close> is appended.
\<close>

fun bump :: "tally_value \<Rightarrow> tally_value" where
  "bump (Count n) = Count (n + 1)"
| "bump (Text s) = (if s = [] then Count 1 else Text (s @ ''1''))"

text \<open>
  \<open>answers[k] = (answers[k] || 0) + 1\<close>: an own key keeps its place, a new key is created
  after the others.
\<close>

fun tally_incr :: "string \<Rightarrow> (string \<times> tally_value) list \<Rightarrow> (string \<times> tally_value) list" where
  "tally_incr k [] = (case fresh_value k of None \<Rightarrow> [] | Some v \<Rightarrow> [(k, v)])"
| "tally_incr k ((k', v) # kvs) =
     (if k = k' then (k', bump v) # kvs else (k', v) # tally_incr k kvs)"


text \<open>
  The body of the inner loop, for one response: \<open>response.answers.find\<close> yields the
  first answer that carries the id of the question, if there is one.
\<close>

definition count_response :: "question \<Rightarrow> question_summary \<Rightarrow> response \<Rightarrow> question_summary" where
  "count_response q acc r =
     (case find (\<lambda>a. questionId a = q_id q) (answers r) of
        None \<Rightarrow> acc
      | Some a \<Rightarrow>
          let acc' = acc\<lparr>totalAnswers := totalAnswers acc + 1\<rparr>
          in if q_type q = MultipleChoice
             then acc'\<lparr>qs_answers := tally_incr (answer_value a) (qs_answers acc')\<rparr>
             else acc')"

definition summarize_question :: "question \<Rightarrow> response list \<Rightarrow> question_summary" where
  "summarize_question q rs =
     foldl (count_response q)
       \<lparr>qs_questionId = q_id q, qs_questionText = q_text q, qs_questionType = q_type q,
        totalAnswers = 0, qs_answers = []\<rparr> rs"

text \<open>
  The summary of a form over the responses stored for it (\<open>countDocuments\<close> and \<open>find\<close>
  read the same collection with the same filter).
\<close>

definition summarize :: "form \<Rightarrow> response list \<Rightarrow> summary" where
  "summarize f rs =
     \<lparr>totalResponses = length rs,
      summary_questions = map (\<lambda>q. summarize_question q rs) (questions f)\<rparr>"

text \<open>
  \<open>res.json\<close> writes the keys of an object in the order of the language: keys that are
  array indices (canonical decimal numerals below \<open>2^32 - 1\<close>) first, in ascending
  numeric order, then the other keys in the order of their creation.
\<close>

definition index_value :: "string \<Rightarrow> nat" where
  "index_value s = foldl (\<lambda>n c. 10 * n + (of_char c - 48)) 0 s"

definition is_array_index :: "string \<Rightarrow> bool" where
  "is_array_index s \<longleftrightarrow>
     s \<noteq> [] \<and> list_all (\<lambda>c. c \<in> set ''0123456789'') s \<and>
     (s = ''0'' \<or> hd s \<noteq> CHR ''0'') \<and> index_value s < 4294967295"

definition json_entries ::
  "(string \<times> tally_value) list \<Rightarrow> (string \<times> tally_value) list" where
  "json_entries kvs =
     sort_key (\<lambda>kv. index_value (fst kv)) (filter (\<lambda>kv. is_array_index (fst kv)) kvs) @
     filter (\<lambda>kv. \<not> is_array_index (fst kv)) kvs"

definition res_json :: "summary \<Rightarrow> summary" where
  "res_json s =
     s\<lparr>summary_questions :=
         map (\<lambda>e. e\<lparr>qs_answers := json_entries (qs_answers e)\<rparr>) (summary_questions s)\<rparr>"

text \<open>
  Three notions for the proofs: the first answer of a response to a question, the values
  of these first answers over a list of responses, and the tally of a list of values.
\<close>

definition first_answer :: "question \<Rightarrow> response \<Rightarrow> answer option" where
  "first_answer q r = find (\<lambda>a. questionId a = q_id q) (answers r)"

definition chosen :: "question \<Rightarrow> response list \<Rightarrow> string list" where
  "chosen q rs = List.map_filter (\<lambda>r. map_option answer_value (first_answer q r)) rs"

definition tally :: "string list \<Rightarrow> (string \<times> tally_value) list" where
  "tally vs = foldl (\<lambda>t v. tally_incr v t) [] vs"

section \<open>Forms: \<open>POST /api/forms\<close>, \<open>PUT /api/forms/:id\<close> and the save hook\<close>

text \<open>
  The bodies of the two routes.  A field that the body does not hold is \<open>None\<close>; the
  questions of a body are given with the id their subdocument has in the store.  The
  replies: the validation errors of the rule chain (400), a 400 with a message naming a
  question, the 404 of the update route, the saved form (201 or 200), and the 500 of
  the \<open>catch\<close> block.
\<close>

record settings_patch =
  sp_allowMultipleResponses :: "bool option"
  sp_requireEmail :: "bool option"
  sp_theme :: "theme option"

record create_body =
  cb_title :: string
  cb_description :: "string option"
  cb_questions :: "question list"
  cb_settings :: "settings_patch option"

record update_body =
  ub_title :: "string option"
  ub_description :: "string option"
  ub_questions :: "question list option"
  ub_isActive :: "bool option"
  ub_settings :: "settings_patch option"

datatype form_reply =
    FormValidationErrors
  | FormBadRequest string
  | FormNotFound
  | FormSaved form
  | FormServerError

text \<open>
  The defaults of the schema for \<open>settings\<close>, and \<open>{ ...form.settings, ...settings }\<close>.
\<close>

definition default_settings :: form_settings where
  "default_settings = \<lparr>allowMultipleResponses = False, requireEmail = False, theme = Light\<rparr>"

definition merge_settings :: "form_settings \<Rightarrow> settings_patch \<Rightarrow> form_settings" where
  "merge_settings s p =
     \<lparr>allowMultipleResponses =
        (case sp_allowMultipleResponses p of None \<Rightarrow> allowMultipleResponses s | Some b \<Rightarrow> b),
      requireEmail = (case sp_requireEmail p of None \<Rightarrow> requireEmail s | Some b \<Rightarrow> b),
      theme = (case sp_theme p of None \<Rightarrow> theme s | Some t \<Rightarrow> t)\<rparr>"

text \<open>
  The rule chains: the title has 1 to 200 characters once trimmed, a description at most
  500, there are 1 to 10 questions, and (on creation) the text of each has 1 to 500
  characters once trimmed.
\<close>

definition valid_create_body :: "validators \<Rightarrow> create_body \<Rightarrow> bool" where
  "valid_create_body L b \<longleftrightarrow>
     1 \<le> length (trim L (cb_title b)) \<and> length (trim L (cb_title b)) \<le> 200 \<and>
     (case cb_description b of None \<Rightarrow> True | Some s \<Rightarrow> length (trim L s) \<le> 500) \<and>
     1 \<le> length (cb_questions b) \<and> length (cb_questions b) \<le> 10 \<and>
     list_all (\<lambda>q. 1 \<le> length (trim L (q_text q)) \<and> length (trim L (q_text q)) \<le> 500)
       (cb_questions b)"

definition valid_update_body :: "validators \<Rightarrow> update_body \<Rightarrow> bool" where
  "valid_update_body L b \<longleftrightarrow>
     (case ub_title b of None \<Rightarrow> True
      | Some t \<Rightarrow> 1 \<le> length (trim L t) \<and> length (trim L t) \<le> 200) \<and>
     (case ub_description b of None \<Rightarrow> True | Some s \<Rightarrow> length (trim L s) \<le> 500) \<and>
     (case ub_questions b of None \<Rightarrow> True | Some qs \<Rightarrow> 1 \<le> length qs \<and> length qs \<le> 10)"

text \<open>
  The loop over the questions of a body: the first multiple-choice question with fewer
  than two options ends the request; the others get their position as \<open>order\<close>.
\<close>

fun choice_check :: "question list \<Rightarrow> string option" where
  "choice_check [] = None"
| "choice_check (q # qs) =
     (if q_type q = MultipleChoice \<and> length (q_options q) < 2 then Some (q_text q)
      else choice_check qs)"

definition number_questions :: "question list \<Rightarrow> question list" where
  "number_questions qs = map (\<lambda>(i, q). q\<lparr>q_order := i + 1\<rparr>) (enumerate 0 qs)"

text \<open>
  \<open>formSchema.pre("save")\<close>: a form whose \<open>publicUrl\<close> is absent or empty gets
  \<open>form-<Date.now()>-<Math.random().toString(36).substr(2, 9)>\<close>; \<open>now\<close> and \<open>rnd\<close>
  are the two renderings at the time of the save.
\<close>

definition pre_save :: "string \<Rightarrow> string \<Rightarrow> form \<Rightarrow> form" where
  "pre_save now rnd f =
     (if publicUrl f = None \<or> publicUrl f = Some []
      then f\<lparr>publicUrl := Some (''form-'' @ now @ ''-'' @ rnd)\<rparr>
      else f)"

text \<open>
  Creation.  \<open>new Form\<close> receives title, description, creator, questions and settings,
  and nothing else of the body; \<open>isActive\<close> has its default.  \<open>accepts\<close> stands for
  what \<open>save()\<close> can refuse (the validation of the schema, the unique index); a save that
  is refused ends in the \<open>catch\<close> block and leaves the store as it was.
\<close>

definition create_form ::
  "validators \<Rightarrow> (db \<Rightarrow> form \<Rightarrow> bool) \<Rightarrow> string \<Rightarrow> string \<Rightarrow> string \<Rightarrow> string \<Rightarrow> db \<Rightarrow> create_body
     \<Rightarrow> form_reply \<times> db" where
  "create_form L accepts now rnd new_id user d b =
     (if \<not> valid_create_body L b then (FormValidationErrors, d)
      else
        let qs = map (\<lambda>q. q\<lparr>q_text := trim L (q_text q)\<rparr>) (cb_questions b) in
        case choice_check qs of
          Some t \<Rightarrow> (FormBadRequest t, d)
        | None \<Rightarrow>
            let f = pre_save now rnd
                  \<lparr>f_id = new_id, title = trim L (cb_title b),
                   description = map_option (trim L) (cb_description b), creator = user,
                   questions = number_questions qs, isActive = True, publicUrl = None,
                   settings = (case cb_settings b of None \<Rightarrow> default_settings
                               | Some p \<Rightarrow> merge_settings default_settings p)\<rparr>
            in if accepts d f then (FormSaved f, d\<lparr>forms := forms d @ [f]\<rparr>)
               else (FormServerError, d))"

text \<open>
  Update.  \<open>Form.findOne({ _id, creator })\<close> yields the first form of the store that
  matches, at its position; the handler assigns the fields the body holds, replaces
  the questions when the body holds some, and saves the document in its place.
\<close>

definition owned_by :: "string \<Rightarrow> string \<Rightarrow> form \<Rightarrow> bool" where
  "owned_by fid user f \<longleftrightarrow> f_id f = fid \<and> creator f = user"

definition position :: "('a \<Rightarrow> bool) \<Rightarrow> 'a list \<Rightarrow> nat" where
  "position P xs = length (takeWhile (\<lambda>x. \<not> P x) xs)"

definition assign_fields :: "validators \<Rightarrow> update_body \<Rightarrow> form \<Rightarrow> form" where
  "assign_fields L b f =
     (let f1 = (case ub_title b of None \<Rightarrow> f | Some t \<Rightarrow> f\<lparr>title := trim L t\<rparr>);
          f2 = (case ub_description b of None \<Rightarrow> f1
                | Some s \<Rightarrow> f1\<lparr>description := Some (trim L s)\<rparr>);
          f3 = (case ub_isActive b of None \<Rightarrow> f2 | Some a \<Rightarrow> f2\<lparr>isActive := a\<rparr>)
      in case ub_settings b of None \<Rightarrow> f3
         | Some p \<Rightarrow> f3\<lparr>settings := merge_settings (settings f3) p\<rparr>)"

definition save_update ::
  "(db \<Rightarrow> form \<Rightarrow> bool) \<Rightarrow> string \<Rightarrow> string \<Rightarrow> db \<Rightarrow> nat \<Rightarrow> form \<Rightarrow> form_reply \<times> db" where
  "save_update accepts now rnd d i f =
     (let f' = pre_save now rnd f
      in if accepts d f' then (FormSaved f', d\<lparr>forms := (forms d)[i := f']\<rparr>)
         else (FormServerError, d))"

definition update_form ::
  "validators \<Rightarrow> (db \<Rightarrow> form \<Rightarrow> bool) \<Rightarrow> string \<Rightarrow> string \<Rightarrow> string \<Rightarrow> string \<Rightarrow> db \<Rightarrow> update_body
     \<Rightarrow> form_reply \<times> db" where
  "update_form L accepts now rnd fid user d b =
     (if \<not> valid_update_body L b then (FormValidationErrors, d)
      else
        case find (owned_by fid user) (forms d) of
          None \<Rightarrow> (FormNotFound, d)
        | Some f \<Rightarrow>
            let i = position (owned_by fid user) (forms d);
                f' = assign_fields L b f
            in case ub_questions b of
                 None \<Rightarrow> save_update accepts now rnd d i f'
               | Some qs \<Rightarrow>
                   (case choice_check qs of
                      Some t \<Rightarrow> (FormBadRequest t, d)
                    | None \<Rightarrow>
                        save_update accepts now rnd d i (f'\<lparr>questions := number_questions qs\<rparr>)))"

text \<open>
  A history of the two routes, starting from the empty store.
\<close>

datatype event =
    CreateForm string string string string create_body
  | UpdateForm string string string string update_body

fun step :: "validators \<Rightarrow> (db \<Rightarrow> form \<Rightarrow> bool) \<Rightarrow> db \<Rightarrow> event \<Rightarrow> db" where
  "step L accepts d (CreateForm now rnd new_id user b) =
     snd (create_form L accepts now rnd new_id user d b)"
| "step L accepts d (UpdateForm now rnd fid user b) =
     snd (update_form L accepts now rnd fid user d b)"

definition run :: "validators \<Rightarrow> (db \<Rightarrow> form \<Rightarrow> bool) \<Rightarrow> db \<Rightarrow> event list \<Rightarrow> db" where
  "run L accepts d evs = foldl (step L accepts) d evs"

definition empty_db :: db where
  "empty_db = \<lparr>forms = [], responses = []\<rparr>"

text \<open>
  For the statements: the id of a form with its \<open>publicUrl\<close>, and that the latter has
  been assigned.
\<close>

definition slug_of :: "form \<Rightarrow> string \<times> string option" where
  "slug_of f = (f_id f, publicUrl f)"

definition has_slug :: "form \<Rightarrow> bool" where
  "has_slug f \<longleftrightarrow> publicUrl f \<noteq> None \<and> publicUrl f \<noteq> Some []"

section \<open>Sample documents and requests\<close>

text \<open>
  An implementation of the validators, two questions, forms and requests, on which the
  routes are run below.
\<close>

definition hex_digit :: "char \<Rightarrow> bool" where
  "hex_digit c \<longleftrightarrow> c \<in> set ''0123456789abcdefABCDEF''"

definition strip_spaces :: "string \<Rightarrow> string" where
  "strip_spaces s =
     rev (dropWhile (\<lambda>c. c = CHR '' '') (rev (dropWhile (\<lambda>c. c = CHR '' '') s)))"

definition sample_validators :: validators where
  "sample_validators =
     \<lparr>isMongoId = (\<lambda>s. length s = 24 \<and> list_all hex_digit s),
      isEmail = (\<lambda>s. CHR ''@'' \<in> set s),
      normalizeEmail = (\<lambda>s. s),
      trim = strip_spaces\<rparr>"

definition q_rating :: question where
  "q_rating = \<lparr>q_id = ''64b000000000000000000001'', q_text = ''Rating'',
      q_type = MultipleChoice, q_options = [''A'', ''B''], q_required = True, q_order = 1\<rparr>"

definition q_comment :: question where
  "q_comment = \<lparr>q_id = ''64b000000000000000000002'', q_text = ''Comment'',
      q_type = TextQuestion, q_options = [], q_required = False, q_order = 2\<rparr>"

text \<open>A form with a required choice question and an optional text question.\<close>

definition survey :: form where
  "survey = \<lparr>f_id = ''64a000000000000000000001'', title = ''Survey'', description = None,
      creator = ''64c000000000000000000001'', questions = [q_rating, q_comment],
      isActive = True, publicUrl = Some ''form-1700000000000-k3j9x0a1b'',
      settings = \<lparr>allowMultipleResponses = False, requireEmail = False, theme = Light\<rparr>\<rparr>"

text \<open>The same form with the choice question only.\<close>

definition poll :: form where
  "poll = survey\<lparr>questions := [q_rating]\<rparr>"

definition store_of :: "form \<Rightarrow> response list \<Rightarrow> db" where
  "store_of f rs = \<lparr>forms = [f], responses = rs\<rparr>"

definition raw :: "string \<Rightarrow> string \<Rightarrow> raw_answer" where
  "raw qid v = \<lparr>ra_questionId = qid, ra_answer = v\<rparr>"

definition request :: "string option \<Rightarrow> raw_answer list \<Rightarrow> submit_request" where
  "request email as = \<lparr>formId = ''64a000000000000000000001'', req_answers = as,
      req_submitterEmail = email, req_submitterName = None,
      req_ip = ''203.0.113.7'', req_userAgent = None\<rparr>"

definition stored :: "string option \<Rightarrow> answer list \<Rightarrow> response" where
  "stored email as = \<lparr>r_form = ''64a000000000000000000001'', answers = as,
      submitterEmail = email, submitterName = None,
      ipAddress = ''203.0.113.7'', userAgent = None\<rparr>"

definition rating :: "string \<Rightarrow> answer" where
  "rating v = \<lparr>questionId = ''64b000000000000000000001'', questionText = ''Rating'',
      questionType = MultipleChoice, answer_value = v\<rparr>"

definition comment :: "string \<Rightarrow> answer" where
  "comment v = \<lparr>questionId = ''64b000000000000000000002'', questionText = ''Comment'',
      questionType = TextQuestion, answer_value = v\<rparr>"

text \<open>The survey, deactivated; and the survey with both questions required.\<close>

definition closed_survey :: form where
  "closed_survey = survey\<lparr>isActive := False\<rparr>"

definition strict_survey :: form where
  "strict_survey = survey\<lparr>questions := [q_rating, q_comment\<lparr>q_required := True\<rparr>]\<rparr>"

text \<open>The poll with its question made optional.\<close>

definition optional_poll :: form where
  "optional_poll = survey\<lparr>questions := [q_rating\<lparr>q_required := False\<rparr>]\<rparr>"

text \<open>Three stored responses to the survey.\<close>

definition three_responses :: "response list" where
  "three_responses =
     [stored None [rating ''A'', comment ''ok''],
      stored None [rating ''B'', rating ''A''],
      stored None [rating ''B'', comment ''no'']]"

text \<open>An id that no question of these forms carries.\<close>

definition stray_id :: string where
  "stray_id = ''64b0000000000000000000ff''"

text \<open>
  A body that creates the survey, a body that renames and deactivates a form, and a store
  that refuses no document.
\<close>

definition new_survey :: create_body where
  "new_survey = \<lparr>cb_title = '' Survey'', cb_description = None,
      cb_questions = [q_rating, q_comment], cb_settings = None\<rparr>"

definition rename :: update_body where
  "rename = \<lparr>ub_title = Some ''Renamed'', ub_description = None, ub_questions = None,
      ub_isActive = Some False, ub_settings = None\<rparr>"

definition accept_all :: "db \<Rightarrow> form \<Rightarrow> bool" where
  "accept_all d f = True"

lemmas form_defs = run_def create_form_def update_form_def save_update_def pre_save_def
  valid_create_body_def valid_update_body_def number_questions_def assign_fields_def
  owned_by_def position_def default_settings_def merge_settings_def empty_db_def
  slug_of_def has_slug_def new_survey_def rename_def accept_all_def

lemmas sample_defs = sample_validators_def hex_digit_def strip_spaces_def q_rating_def
  q_comment_def survey_def poll_def store_of_def raw_def request_def stored_def rating_def
  comment_def closed_survey_def strict_survey_def stray_id_def optional_poll_def

lemmas submit_defs = submit_def valid_submit_request_def findById_def find_question_def
  find_answer_def identity_key_def findOne_response_def Let_def

lemmas summary_defs = summarize_def summarize_question_def count_response_def res_json_def
  json_entries_def is_array_index_def index_value_def fresh_value_def inherited_functions_def
  function_text_def inherited_name_def

section \<open>The checks of the submission route\<close>

lemma required_check_first:
  "find (\<lambda>q. q_required q \<and> find_answer as (q_id q) = None) qs = Some q
   \<Longrightarrow> required_check qs as = Some (q_text q)"
  by (induction qs) (auto split: if_splits)

lemma option_check_None_iff:
  "option_check qs as = None \<longleftrightarrow>
     (\<forall>a\<in>set as. \<forall>q. find_question qs (ra_questionId a) = Some q \<and> q_type q = MultipleChoice
        \<longrightarrow> ra_answer a \<in> set (q_options q))"
  by (induction as) (auto split: option.splits)

lemma option_check_Some:
  "option_check qs as = Some t \<Longrightarrow>
     \<exists>a\<in>set as. \<exists>q. find_question qs (ra_questionId a) = Some q \<and> q_type q = MultipleChoice
        \<and> ra_answer a \<notin> set (q_options q) \<and> t = q_text q"
  by (induction as) (auto split: option.splits if_splits)

lemma normalize_answers_None_iff:
  "normalize_answers qs as = None \<longleftrightarrow> (\<exists>a\<in>set as. find_question qs (ra_questionId a) = None)"
  by (induction as) (auto split: option.splits)

lemma submit_reaches_option_check:
  assumes "valid_submit_request L req" and "findById d (formId req) = Some f" and "isActive f"
    and "length (req_answers req) = length (questions f)"
    and "required_check (questions f) (req_answers req) = None"
    and "option_check (questions f) (req_answers req) = Some t"
  shows "submit L d req = (InvalidOption t, d)"
  using assms by (simp add: submit_def)

lemma submit_InvalidOption_only_from_check:
  "fst (submit L d req) = InvalidOption t \<Longrightarrow>
     \<exists>f. findById d (formId req) = Some f \<and> option_check (questions f) (req_answers req) = Some t"
  by (auto simp: submit_def Let_def split: if_splits option.splits)

text \<open>
  Claim C5, as the code has it.  The rule chain of the request is evaluated before the
  form is looked up: for a form that is not active, a request that passes the rule
  chain is answered \<open>FormUnavailable\<close>, whatever its answers, and a request that does
  not pass it is answered with the validation errors; the store is not changed.
\<close>

theorem inactive_form_unavailable:
  assumes "findById d (formId req) = Some f" and "\<not> isActive f"
  shows "submit L d req =
           ((if valid_submit_request L req then FormUnavailable else ValidationErrors), d)"
  using assms by (simp add: submit_def)

text \<open>
  The deactivated survey and one answer, whose value is not an option and whose count
  does not match: the reply is \<open>FormUnavailable\<close>.
\<close>

theorem inactive_form_unavailable_witness:
  "valid_submit_request sample_validators (request None [raw (q_id q_rating) ''C'']) \<and>
   submit sample_validators (store_of closed_survey []) (request None [raw (q_id q_rating) ''C''])
     = (FormUnavailable, store_of closed_survey [])"
  using inactive_form_unavailable [of "store_of closed_survey []"
      "request None [raw (q_id q_rating) ''C'']" closed_survey sample_validators]
  by (simp add: valid_submit_request_def findById_def sample_defs)

text \<open>
  Claim C5 as stated fails: the deactivated survey and the empty answer array are
  answered with the validation errors, not with \<open>FormUnavailable\<close>.
\<close>

theorem inactive_form_counterexample:
  "findById (store_of closed_survey []) (formId (request None [])) = Some closed_survey \<and>
   \<not> isActive closed_survey \<and>
   submit sample_validators (store_of closed_survey []) (request None [])
     = (ValidationErrors, store_of closed_survey [])"
  by (simp add: submit_defs sample_defs)

text \<open>
  Claim C6, as the code has it.  For an active form and a request that passes the rule
  chain, a number of answers that differs from the number of questions is answered
  \<open>AnswerCountMismatch\<close>, whatever the required-question and option checks would have
  found; the store is not changed.
\<close>

theorem answer_count_mismatch:
  assumes "valid_submit_request L req" and "findById d (formId req) = Some f" and "isActive f"
    and "length (req_answers req) \<noteq> length (questions f)"
  shows "submit L d req = (AnswerCountMismatch, d)"
  using assms by (simp add: submit_def)

text \<open>
  The survey and one answer, to the optional question: the required question has no
  answer, and still the reply is \<open>AnswerCountMismatch\<close>.
\<close>

theorem answer_count_mismatch_witness:
  "valid_submit_request sample_validators (request None [raw (q_id q_comment) ''fine'']) \<and>
   isActive survey \<and>
   required_check (questions survey) [raw (q_id q_comment) ''fine''] = Some ''Rating'' \<and>
   submit sample_validators (store_of survey []) (request None [raw (q_id q_comment) ''fine''])
     = (AnswerCountMismatch, store_of survey [])"
  using answer_count_mismatch [of sample_validators "request None [raw (q_id q_comment) ''fine'']"
      "store_of survey []" survey]
  by (simp add: valid_submit_request_def findById_def find_answer_def sample_defs)

text \<open>
  Claim C6 as stated fails: the active survey has two questions, the empty answer array
  has none, and the reply is the validation errors.
\<close>

theorem answer_count_counterexample:
  "findById (store_of survey []) (formId (request None [])) = Some survey \<and>
   isActive survey \<and>
   length (req_answers (request None [])) \<noteq> length (questions survey) \<and>
   submit sample_validators (store_of survey []) (request None [])
     = (ValidationErrors, store_of survey [])"
  by (simp add: submit_defs sample_defs)

text \<open>
  Claim C2, as the code has it.  An answer whose value is the empty string is refused by
  the rule chain, with the validation errors.  For an active form and a request that
  passes the rule chain with as many answers as questions, the first question of the
  form that is required and has no answer carrying its id is the one the reply
  \<open>RequiredQuestionUnanswered\<close> names.
\<close>

theorem required_question_unanswered:
  "(list_ex (\<lambda>a. ra_answer a = []) (req_answers req) \<longrightarrow>
      submit L d req = (ValidationErrors, d)) \<and>
   (valid_submit_request L req \<and> findById d (formId req) = Some f \<and> isActive f \<and>
    length (req_answers req) = length (questions f) \<and>
    find (\<lambda>q. q_required q \<and> find_answer (req_answers req) (q_id q) = None) (questions f) = Some q
    \<longrightarrow> submit L d req = (RequiredQuestionUnanswered (q_text q), d))"
proof (intro conjI impI)
  assume "list_ex (\<lambda>a. ra_answer a = []) (req_answers req)"
  then have "\<not> list_all (\<lambda>a. ra_answer a \<noteq> []) (req_answers req)"
    by (auto simp: list_ex_iff list_all_iff)
  then show "submit L d req = (ValidationErrors, d)"
    by (simp add: submit_def valid_submit_request_def)
next
  assume h: "valid_submit_request L req \<and> findById d (formId req) = Some f \<and> isActive f \<and>
    length (req_answers req) = length (questions f) \<and>
    find (\<lambda>q. q_required q \<and> find_answer (req_answers req) (q_id q) = None) (questions f) = Some q"
  then have "required_check (questions f) (req_answers req) = Some (q_text q)"
    by (simp add: required_check_first)
  with h show "submit L d req = (RequiredQuestionUnanswered (q_text q), d)"
    by (simp add: submit_def)
qed

text \<open>
  The survey with both questions required and two answers that carry another id: the
  reply names the first question.
\<close>

theorem required_question_unanswered_witness:
  "valid_submit_request sample_validators (request None [raw stray_id ''x'', raw stray_id ''y'']) \<and>
   find (\<lambda>q. q_required q \<and> find_answer [raw stray_id ''x'', raw stray_id ''y''] (q_id q) = None)
     (questions strict_survey) = Some q_rating \<and>
   submit sample_validators (store_of strict_survey [])
       (request None [raw stray_id ''x'', raw stray_id ''y''])
     = (RequiredQuestionUnanswered ''Rating'', store_of strict_survey [])"
  using required_question_unanswered [where L = sample_validators
      and req = "request None [raw stray_id ''x'', raw stray_id ''y'']"
      and d = "store_of strict_survey []" and f = strict_survey and q = q_rating]
  by (simp add: valid_submit_request_def findById_def find_answer_def sample_defs)

text \<open>
  Claim C2 as stated fails.  The required question of the survey answered with the empty
  string: the reply is the validation errors, not \<open>RequiredQuestionUnanswered\<close>.  The
  survey with both questions required and neither answered: the second question is
  required and has no answer, and the reply names the first.
\<close>

theorem required_question_counterexample:
  "q_required q_rating \<and> isActive survey \<and>
   length [raw (q_id q_rating) [], raw (q_id q_comment) ''fine''] = length (questions survey) \<and>
   submit sample_validators (store_of survey [])
       (request None [raw (q_id q_rating) [], raw (q_id q_comment) ''fine''])
     = (ValidationErrors, store_of survey []) \<and>
   questions strict_survey ! 1 = q_comment\<lparr>q_required := True\<rparr> \<and>
   find_answer [raw stray_id ''x'', raw stray_id ''y''] (q_id q_comment) = None \<and>
   submit sample_validators (store_of strict_survey [])
       (request None [raw stray_id ''x'', raw stray_id ''y''])
     = (RequiredQuestionUnanswered (q_text q_rating), store_of strict_survey []) \<and>
   q_text q_rating \<noteq> q_text q_comment"
  by (simp add: submit_defs sample_defs)

text \<open>
  Claim C7, as the code has it.  Where the request reaches the option check (it passes
  the rule chain, so no answer value is empty; the form is active; the count matches; no
  required question lacks an answer), an answer whose question is found, is of type
  multiple-choice and does not list the value among its options, compared as strings,
  makes the reply \<open>InvalidOption\<close>, naming the question of such an answer.  Where every
  answer to a multiple-choice question carries one of its options, the reply is never
  \<open>InvalidOption\<close>.
\<close>

theorem option_membership:
  "(valid_submit_request L req \<and> findById d (formId req) = Some f \<and> isActive f \<and>
    length (req_answers req) = length (questions f) \<and>
    required_check (questions f) (req_answers req) = None \<and>
    a \<in> set (req_answers req) \<and> find_question (questions f) (ra_questionId a) = Some q \<and>
    q_type q = MultipleChoice \<and> ra_answer a \<notin> set (q_options q)
    \<longrightarrow> (\<exists>a'\<in>set (req_answers req). \<exists>q'.
           find_question (questions f) (ra_questionId a') = Some q' \<and>
           q_type q' = MultipleChoice \<and> ra_answer a' \<notin> set (q_options q') \<and>
           submit L d req = (InvalidOption (q_text q'), d))) \<and>
   (findById d (formId req) = Some f \<and>
    (\<forall>a\<in>set (req_answers req). \<forall>q. find_question (questions f) (ra_questionId a) = Some q \<and>
        q_type q = MultipleChoice \<longrightarrow> ra_answer a \<in> set (q_options q))
    \<longrightarrow> (\<forall>t. fst (submit L d req) \<noteq> InvalidOption t))"
proof (intro conjI impI)
  assume h: "valid_submit_request L req \<and> findById d (formId req) = Some f \<and> isActive f \<and>
    length (req_answers req) = length (questions f) \<and>
    required_check (questions f) (req_answers req) = None \<and>
    a \<in> set (req_answers req) \<and> find_question (questions f) (ra_questionId a) = Some q \<and>
    q_type q = MultipleChoice \<and> ra_answer a \<notin> set (q_options q)"
  then have "option_check (questions f) (req_answers req) \<noteq> None"
    unfolding option_check_None_iff by blast
  then obtain t where t: "option_check (questions f) (req_answers req) = Some t" by auto
  from h t have "submit L d req = (InvalidOption t, d)"
    by (simp add: submit_reaches_option_check)
  with option_check_Some [OF t]
  show "\<exists>a'\<in>set (req_answers req). \<exists>q'.
           find_question (questions f) (ra_questionId a') = Some q' \<and>
           q_type q' = MultipleChoice \<and> ra_answer a' \<notin> set (q_options q') \<and>
           submit L d req = (InvalidOption (q_text q'), d)"
    by auto
next
  assume h: "findById d (formId req) = Some f \<and>
    (\<forall>a\<in>set (req_answers req). \<forall>q. find_question (questions f) (ra_questionId a) = Some q \<and>
        q_type q = MultipleChoice \<longrightarrow> ra_answer a \<in> set (q_options q))"
  then have "option_check (questions f) (req_answers req) = None"
    unfolding option_check_None_iff by blast
  with h show "\<forall>t. fst (submit L d req) \<noteq> InvalidOption t"
    by (auto dest!: submit_InvalidOption_only_from_check)
qed

text \<open>
  The scenario of the specification: one required choice question with the options A
  and B; the answer C is refused with \<open>InvalidOption\<close>, the answer A is accepted.
\<close>

theorem option_membership_witness:
  "valid_submit_request sample_validators (request None [raw (q_id q_rating) ''C'']) \<and>
   find_question (questions poll) (q_id q_rating) = Some q_rating \<and>
   ''C'' \<notin> set (q_options q_rating) \<and> ''A'' \<in> set (q_options q_rating) \<and>
   submit sample_validators (store_of poll []) (request None [raw (q_id q_rating) ''C''])
     = (InvalidOption ''Rating'', store_of poll []) \<and>
   submit sample_validators (store_of poll []) (request None [raw (q_id q_rating) ''A''])
     = (Accepted (stored None [rating ''A'']), store_of poll [stored None [rating ''A'']])"
  using option_membership [where L = sample_validators
      and req = "request None [raw (q_id q_rating) ''C'']" and d = "store_of poll []"
      and f = poll and a = "raw (q_id q_rating) ''C''" and q = q_rating]
  by (simp add: submit_defs sample_defs)

text \<open>
  Claim C7 as stated fails: the empty string is not an option of the optional choice
  question, which is what the public page sends for a question left open, and the reply
  is the validation errors of the rule chain, not \<open>InvalidOption\<close>.
\<close>

theorem option_membership_counterexample:
  "isActive optional_poll \<and>
   length [raw (q_id q_rating) []] = length (questions optional_poll) \<and>
   required_check (questions optional_poll) [raw (q_id q_rating) []] = None \<and>
   find_question (questions optional_poll) (q_id q_rating) = Some (q_rating\<lparr>q_required := False\<rparr>) \<and>
   q_type (q_rating\<lparr>q_required := False\<rparr>) = MultipleChoice \<and>
   [] \<notin> set (q_options (q_rating\<lparr>q_required := False\<rparr>)) \<and>
   submit sample_validators (store_of optional_poll []) (request None [raw (q_id q_rating) []])
     = (ValidationErrors, store_of optional_poll [])"
  by (simp add: submit_defs sample_defs)

text \<open>
  Claim C9, as the code has it.  The duplicate check stands between the option check and
  the accept path.  For a request that passes the rule chain, an active form, a matching
  count, and the required-question and option checks passed, an answer whose id no
  question of the form carries leads to \<open>DuplicateSubmission\<close> where the duplicate
  check finds a record, and otherwise to the server error of the \<open>catch\<close> block; in
  both cases nothing is saved.
\<close>

theorem unknown_question_fails:
  assumes "valid_submit_request L req" and "findById d (formId req) = Some f" and "isActive f"
    and "length (req_answers req) = length (questions f)"
    and "required_check (questions f) (req_answers req) = None"
    and "option_check (questions f) (req_answers req) = None"
    and "a \<in> set (req_answers req)" and "find_question (questions f) (ra_questionId a) = None"
  shows "submit L d req =
     ((if \<not> allowMultipleResponses (settings f) \<and>
          findOne_response d (formId req)
            (identity_key (map_option (normalizeEmail L) (req_submitterEmail req)) (req_ip req))
          \<noteq> None
       then DuplicateSubmission else ServerError), d)"
proof -
  have "normalize_answers (questions f) (req_answers req) = None"
    using assms(7,8) normalize_answers_None_iff by blast
  with assms show ?thesis by (simp add: submit_def Let_def)
qed

text \<open>
  The survey, its required question answered with an option, and a second answer that
  carries another id: with no record in the store the reply is the server error.
\<close>

theorem unknown_question_fails_witness:
  "valid_submit_request sample_validators
     (request None [raw (q_id q_rating) ''A'', raw stray_id ''x'']) \<and>
   required_check (questions survey) [raw (q_id q_rating) ''A'', raw stray_id ''x''] = None \<and>
   option_check (questions survey) [raw (q_id q_rating) ''A'', raw stray_id ''x''] = None \<and>
   find_question (questions survey) stray_id = None \<and>
   submit sample_validators (store_of survey [])
       (request None [raw (q_id q_rating) ''A'', raw stray_id ''x''])
     = (ServerError, store_of survey [])"
  using unknown_question_fails [of sample_validators
      "request None [raw (q_id q_rating) ''A'', raw stray_id ''x'']" "store_of survey []" survey
      "raw stray_id ''x''"]
  by (simp add: submit_defs sample_defs)

text \<open>
  Claim C9 as stated fails: the same answers, sent with an email for which the store
  holds a record of the form, are answered \<open>DuplicateSubmission\<close>.
\<close>

theorem unknown_question_counterexample:
  "valid_submit_request sample_validators
     (request (Some ''a@x.com'') [raw (q_id q_rating) ''A'', raw stray_id ''x'']) \<and>
   isActive survey \<and>
   length [raw (q_id q_rating) ''A'', raw stray_id ''x''] = length (questions survey) \<and>
   required_check (questions survey) [raw (q_id q_rating) ''A'', raw stray_id ''x''] = None \<and>
   option_check (questions survey) [raw (q_id q_rating) ''A'', raw stray_id ''x''] = None \<and>
   find_question (questions survey) stray_id = None \<and>
   submit sample_validators
       (store_of survey [stored (Some ''a@x.com'') [rating ''A'', comment ''ok'']])
       (request (Some ''a@x.com'') [raw (q_id q_rating) ''A'', raw stray_id ''x''])
     = (DuplicateSubmission,
        store_of survey [stored (Some ''a@x.com'') [rating ''A'', comment ''ok'']])"
  by (simp add: submit_defs sample_defs)

text \<open>
  Claim C1 at a concrete request.  The survey does not allow multiple responses, and the
  store holds a record for it that was sent without an email from the address
  203.0.113.7.  A second request without an email from the same address is accepted and
  saved: the lookup compares the address with the \<open>submitterEmail\<close> of the stored
  records, never with their \<open>ipAddress\<close>.
\<close>

theorem anonymous_resubmission_accepted:
  "\<not> allowMultipleResponses (settings survey) \<and>
   req_submitterEmail (request None [raw (q_id q_rating) ''B'', raw (q_id q_comment) ''again'']) = None \<and>
   r_form (stored None [rating ''A'', comment ''ok''])
     = formId (request None [raw (q_id q_rating) ''B'', raw (q_id q_comment) ''again'']) \<and>
   ipAddress (stored None [rating ''A'', comment ''ok''])
     = req_ip (request None [raw (q_id q_rating) ''B'', raw (q_id q_comment) ''again'']) \<and>
   submit sample_validators (store_of survey [stored None [rating ''A'', comment ''ok'']])
       (request None [raw (q_id q_rating) ''B'', raw (q_id q_comment) ''again''])
     = (Accepted (stored None [rating ''B'', comment ''again'']),
        store_of survey [stored None [rating ''A'', comment ''ok''],
                         stored None [rating ''B'', comment ''again'']])"
  by (simp add: submit_defs sample_defs)

text \<open>
  The scenario of the specification for the email: with a record of a@x.com in the store,
  a request under a@x.com is answered \<open>DuplicateSubmission\<close>, a request under b@x.com is
  accepted.
\<close>

lemma email_resubmission_scenario:
  "submit sample_validators
       (store_of survey [stored (Some ''a@x.com'') [rating ''A'', comment ''ok'']])
       (request (Some ''a@x.com'') [raw (q_id q_rating) ''B'', raw (q_id q_comment) ''again''])
     = (DuplicateSubmission,
        store_of survey [stored (Some ''a@x.com'') [rating ''A'', comment ''ok'']]) \<and>
   fst (submit sample_validators
       (store_of survey [stored (Some ''a@x.com'') [rating ''A'', comment ''ok'']])
       (request (Some ''b@x.com'') [raw (q_id q_rating) ''B'', raw (q_id q_comment) ''again'']))
     = Accepted (stored (Some ''b@x.com'') [rating ''B'', comment ''again''])"
  by (simp add: submit_defs sample_defs)

text \<open>
  The required check looks for an answer with the id of the question and does not read
  its value: three blanks answer a required question.
\<close>

lemma blank_answer_accepted:
  "q_required (questions strict_survey ! 1) \<and>
   fst (submit sample_validators (store_of strict_survey [])
       (request None [raw (q_id q_rating) ''A'', raw (q_id q_comment) ''   '']))
     = Accepted (stored None [rating ''A'', comment ''   ''])"
  by (simp add: submit_defs sample_defs)

section \<open>The tally and the counts of the summary\<close>

lemma keys_tally_incr:
  "map fst (tally_incr k t) =
     (if k \<in> set (map fst t) \<or> fresh_value k = None then map fst t else map fst t @ [k])"
  by (induction t) (force split: option.splits)+

lemma map_of_tally_incr:
  "map_of (tally_incr k t) k' =
     (if k' = k then (case map_of t k of None \<Rightarrow> fresh_value k | Some x \<Rightarrow> Some (bump x))
      else map_of t k')"
  by (induction t) (auto split: option.splits)



lemma fresh_value_plain: "\<not> inherited_name k \<Longrightarrow> fresh_value k = Some (Count 1)"
  by (simp add: fresh_value_def inherited_name_def)


lemma tally_snoc: "tally (vs @ [v]) = tally_incr v (tally vs)"
  by (simp add: tally_def)

lemma tally_Nil: "tally [] = []"
  by (simp add: tally_def)

lemma distinct_tally: "distinct (map fst (tally vs))"
  by (induction vs rule: rev_induct) (auto simp: tally_Nil tally_snoc keys_tally_incr)

lemma keys_tally: "set (map fst (tally vs)) \<subseteq> set vs"
  by (induction vs rule: rev_induct) (auto simp: tally_Nil tally_snoc keys_tally_incr)

lemma map_of_tally:
  "map_of (tally vs) k =
     (if count_list vs k = 0 then None
      else map_option (bump ^^ (count_list vs k - 1)) (fresh_value k))"
proof (induction vs rule: rev_induct)
  case Nil
  show ?case by (simp add: tally_Nil)
next
  case (snoc v vs)
  show ?case
  proof (cases "k = v")
    case False
    with snoc show ?thesis by (simp add: tally_snoc map_of_tally_incr)
  next
    case True
    show ?thesis
    proof (cases "count_list vs v")
      case 0
      with snoc True show ?thesis
        by (cases "fresh_value v") (simp_all add: tally_snoc map_of_tally_incr)
    next
      case (Suc m)
      with snoc True show ?thesis
        by (cases "fresh_value v") (simp_all add: tally_snoc map_of_tally_incr)
    qed
  qed
qed

lemma bump_Count: "(bump ^^ m) (Count n) = Count (n + m)"
  by (induction m) auto

lemma map_of_tally_plain:
  assumes "\<forall>v\<in>set vs. \<not> inherited_name v"
  shows "map_of (tally vs) k =
     (if count_list vs k = 0 then None else Some (Count (count_list vs k)))"
proof (cases "count_list vs k = 0")
  case True
  then show ?thesis by (simp add: map_of_tally)
next
  case False
  then have "k \<in> set vs" by (metis count_list_0_iff)
  with assms have "fresh_value k = Some (Count 1)" by (simp add: fresh_value_plain)
  with False show ?thesis by (simp add: map_of_tally bump_Count)
qed



lemma mset_tally:
  assumes "mset vs = mset vs'"
  shows "mset (tally vs) = mset (tally vs')"
proof -
  have "count_list vs v = count_list vs' v" for v
    using assms by (metis count_mset)
  then have "map_of (tally vs) = map_of (tally vs')"
    by (simp add: fun_eq_iff map_of_tally)
  then have "set (tally vs) = set (tally vs')"
    using map_of_inject_set [OF distinct_tally distinct_tally] by blast
  moreover have "distinct (tally vs)" and "distinct (tally vs')"
    using distinct_tally distinct_map by blast+
  ultimately show ?thesis
    by (simp add: set_eq_iff_mset_eq_distinct)
qed

lemma set_chosen:
  "v \<in> set (chosen q rs) \<Longrightarrow>
     \<exists>r\<in>set rs. \<exists>a. find (\<lambda>a. questionId a = q_id q) (answers r) = Some a \<and> answer_value a = v"
  by (fastforce simp: chosen_def List.map_filter_def first_answer_def)

lemma chosen_Nil: "chosen q [] = []"
  by (simp add: chosen_def List.map_filter_simps)

lemma chosen_Cons:
  "chosen q (r # rs) =
     (case first_answer q r of None \<Rightarrow> chosen q rs | Some a \<Rightarrow> answer_value a # chosen q rs)"
  by (simp add: chosen_def List.map_filter_simps split: option.splits)


lemma count_response_step:
  "count_response q acc r =
     (case first_answer q r of
        None \<Rightarrow> acc
      | Some a \<Rightarrow>
          acc\<lparr>totalAnswers := totalAnswers acc + 1,
              qs_answers := (if q_type q = MultipleChoice
                             then tally_incr (answer_value a) (qs_answers acc)
                             else qs_answers acc)\<rparr>)"
  by (simp add: count_response_def first_answer_def Let_def split: option.splits)

lemma foldl_count_response:
  "foldl (count_response q) acc rs =
     acc\<lparr>totalAnswers := totalAnswers acc + length (chosen q rs),
         qs_answers := (if q_type q = MultipleChoice
                        then foldl (\<lambda>t v. tally_incr v t) (qs_answers acc) (chosen q rs)
                        else qs_answers acc)\<rparr>"
proof (induction rs arbitrary: acc)
  case Nil
  show ?case by (simp add: chosen_Nil)
next
  case (Cons r rs)
  have "foldl (count_response q) acc (r # rs) =
        foldl (count_response q) (count_response q acc r) rs"
    by simp
  also have "\<dots> = (count_response q acc r)
       \<lparr>totalAnswers := totalAnswers (count_response q acc r) + length (chosen q rs),
        qs_answers := (if q_type q = MultipleChoice
                       then foldl (\<lambda>t v. tally_incr v t) (qs_answers (count_response q acc r))
                              (chosen q rs)
                       else qs_answers (count_response q acc r))\<rparr>"
    by (rule Cons.IH)
  also have "\<dots> = acc
       \<lparr>totalAnswers := totalAnswers acc + length (chosen q (r # rs)),
        qs_answers := (if q_type q = MultipleChoice
                       then foldl (\<lambda>t v. tally_incr v t) (qs_answers acc) (chosen q (r # rs))
                       else qs_answers acc)\<rparr>"
    by (cases "first_answer q r") (simp_all add: count_response_step chosen_Cons)
  finally show ?case .
qed

lemma summarize_question_eq:
  "summarize_question q rs =
     \<lparr>qs_questionId = q_id q, qs_questionText = q_text q, qs_questionType = q_type q,
      totalAnswers = length (chosen q rs),
      qs_answers = (if q_type q = MultipleChoice then tally (chosen q rs) else [])\<rparr>"
  by (simp add: summarize_question_def foldl_count_response tally_def)

lemma length_chosen:
  "length (chosen q rs) = length [r \<leftarrow> rs. \<exists>a\<in>set (answers r). questionId a = q_id q]"
proof -
  have "(\<lambda>r. map_option answer_value (first_answer q r) \<noteq> None) =
        (\<lambda>r. \<exists>a\<in>set (answers r). questionId a = q_id q)"
    by (auto simp: fun_eq_iff first_answer_def find_None_iff)
  then show ?thesis by (simp add: chosen_def List.map_filter_def)
qed

lemma count_chosen:
  "count_list (chosen q rs) v =
     length [r \<leftarrow> rs. map_option answer_value (find (\<lambda>a. questionId a = q_id q) (answers r)) = Some v]"
  by (induction rs) (auto simp: chosen_Nil chosen_Cons first_answer_def split: option.splits)

lemma mset_map_filter:
  assumes "mset xs = mset ys"
  shows "mset (List.map_filter g xs) = mset (List.map_filter g ys)"
proof -
  have "mset (List.map_filter g zs) =
        image_mset (the \<circ> g) (filter_mset (\<lambda>x. g x \<noteq> None) (mset zs))" for zs
    by (simp add: List.map_filter_def)
  with assms show ?thesis by simp
qed

lemma mset_chosen: "mset rs = mset rs' \<Longrightarrow> mset (chosen q rs) = mset (chosen q rs')"
  unfolding chosen_def by (rule mset_map_filter)

lemma mset_json_entries: "mset (json_entries t) = mset t"
  unfolding json_entries_def
  by (simp only: mset_append mset_sort mset_filter multiset_partition [symmetric])

lemma res_json_entry:
  "summary_questions (res_json (summarize f rs)) =
     map (\<lambda>q. (summarize_question q rs)\<lparr>qs_answers := json_entries (qs_answers (summarize_question q rs))\<rparr>)
       (questions f)"
  by (simp add: res_json_def summarize_def comp_def)

text \<open>
  Claim C3, as the code has it.  For two lists of responses that are permutations of each
  other, the summaries written by \<open>res.json\<close> have the same \<open>totalResponses\<close>, and
  their question entries agree, in the order of the form, on id, text, type and
  \<open>totalAnswers\<close>, and on the keys of the tally with their counts; the order of the
  keys inside a tally is left open.  (A summary is a function of the form and the list
  of responses: computed twice from the same two, it is the same.)
\<close>

theorem summarize_permutation:
  assumes "mset rs = mset rs'"
  shows "totalResponses (res_json (summarize f rs)) = totalResponses (res_json (summarize f rs')) \<and>
     map (\<lambda>e. (qs_questionId e, qs_questionText e, qs_questionType e, totalAnswers e,
                mset (qs_answers e))) (summary_questions (res_json (summarize f rs))) =
     map (\<lambda>e. (qs_questionId e, qs_questionText e, qs_questionType e, totalAnswers e,
                mset (qs_answers e))) (summary_questions (res_json (summarize f rs')))"
proof -
  have len: "length rs = length rs'"
    using assms by (metis size_mset)
  have ch: "mset (chosen q rs) = mset (chosen q rs')" for q
    using assms by (rule mset_chosen)
  have n: "length (chosen q rs) = length (chosen q rs')" for q
    using ch [of q] by (metis size_mset)
  have t: "mset (tally (chosen q rs)) = mset (tally (chosen q rs'))" for q
    using ch [of q] by (rule mset_tally)
  show ?thesis
    by (simp add: res_json_entry summarize_question_eq mset_json_entries comp_def n t)
       (simp add: res_json_def summarize_def len)
qed

text \<open>Two responses to the poll, one choosing A and one choosing B, in both orders.\<close>

theorem summarize_permutation_witness:
  "mset [stored None [rating ''A''], stored None [rating ''B'']] =
     mset [stored None [rating ''B''], stored None [rating ''A'']] \<and>
   map (\<lambda>e. (totalAnswers e, mset (qs_answers e)))
     (summary_questions (res_json (summarize poll [stored None [rating ''A''], stored None [rating ''B'']])))
   = map (\<lambda>e. (totalAnswers e, mset (qs_answers e)))
     (summary_questions (res_json (summarize poll [stored None [rating ''B''], stored None [rating ''A'']])))"
  using summarize_permutation [of "[stored None [rating ''A''], stored None [rating ''B'']]"
      "[stored None [rating ''B''], stored None [rating ''A'']]" poll]
  by (simp add: summary_defs sample_defs)

text \<open>
  Claim C3 as stated fails: the keys of the tally are written in the order in which the
  values first appear among the responses, so the two orders of the same two responses
  give \<open>{"A":1,"B":1}\<close> and \<open>{"B":1,"A":1}\<close>.
\<close>

theorem summarize_order_counterexample:
  "mset [stored None [rating ''A''], stored None [rating ''B'']] =
     mset [stored None [rating ''B''], stored None [rating ''A'']] \<and>
   map qs_answers (summary_questions (res_json
       (summarize poll [stored None [rating ''A''], stored None [rating ''B'']])))
     = [[(''A'', Count 1), (''B'', Count 1)]] \<and>
   map qs_answers (summary_questions (res_json
       (summarize poll [stored None [rating ''B''], stored None [rating ''A'']])))
     = [[(''B'', Count 1), (''A'', Count 1)]] \<and>
   res_json (summarize poll [stored None [rating ''A''], stored None [rating ''B'']]) \<noteq>
   res_json (summarize poll [stored None [rating ''B''], stored None [rating ''A'']])"
  by (simp add: summary_defs sample_defs)

lemma single_answer_count:
  "distinct (map questionId as) \<Longrightarrow>
     length [a \<leftarrow> as. questionId a = k \<and> answer_value a = v] =
       (if map_option answer_value (find (\<lambda>a. questionId a = k) as) = Some v then 1 else 0)"
proof (induction as)
  case Nil
  show ?case by simp
next
  case (Cons a as)
  show ?case
  proof (cases "questionId a = k")
    case True
    with Cons.prems have "k \<notin> questionId ` set as" by simp
    then have "\<forall>b\<in>set as. questionId b \<noteq> k" by blast
    then have "[b \<leftarrow> as. questionId b = k \<and> answer_value b = v] = []"
      by (simp add: filter_empty_conv)
    with True show ?thesis by simp
  next
    case False
    with Cons show ?thesis by simp
  qed
qed

lemma occurrences_count:
  assumes "\<forall>r\<in>set rs. distinct (map questionId (answers r))"
  shows "length [a \<leftarrow> concat (map answers rs). questionId a = k \<and> answer_value a = v] =
         length [r \<leftarrow> rs. map_option answer_value (find (\<lambda>a. questionId a = k) (answers r)) = Some v]"
  using assms
proof (induction rs)
  case Nil
  show ?case by simp
next
  case (Cons r rs)
  then have "distinct (map questionId (answers r))" by simp
  from single_answer_count [OF this, of k v] Cons show ?case by simp
qed

text \<open>
  Claim C4, as the code has it.  \<open>totalResponses\<close> is the number of responses; there is
  one entry per question of the form, at the same position, with the id, text and type
  of the question; its \<open>totalAnswers\<close> is the number of responses that hold an answer
  with the id of the question; for a text question the tally is empty; for a
  multiple-choice question the tally has each key once and, where no response gives (as
  its first answer with the id of the question) the name of an inherited property, a
  value is a key exactly when some response gives it as its first answer with that id,
  mapped to the number of such responses: one count per response.  Where moreover no
  response holds two answers with the same id, that number is the number of answers to
  the question, over all responses, that carry the value.
\<close>

theorem summary_contents:
  "totalResponses (summarize f rs) = length rs \<and>
   length (summary_questions (summarize f rs)) = length (questions f) \<and>
   (\<forall>i < length (questions f).
      qs_questionId (summary_questions (summarize f rs) ! i) = q_id (questions f ! i) \<and>
      qs_questionText (summary_questions (summarize f rs) ! i) = q_text (questions f ! i) \<and>
      qs_questionType (summary_questions (summarize f rs) ! i) = q_type (questions f ! i) \<and>
      totalAnswers (summary_questions (summarize f rs) ! i) =
        length [r \<leftarrow> rs. \<exists>a\<in>set (answers r). questionId a = q_id (questions f ! i)] \<and>
      (q_type (questions f ! i) = TextQuestion \<longrightarrow>
         qs_answers (summary_questions (summarize f rs) ! i) = []) \<and>
      (q_type (questions f ! i) = MultipleChoice \<longrightarrow>
         distinct (map fst (qs_answers (summary_questions (summarize f rs) ! i))) \<and>
         ((\<forall>r\<in>set rs. \<forall>a. find (\<lambda>a. questionId a = q_id (questions f ! i)) (answers r) = Some a
              \<longrightarrow> \<not> inherited_name (answer_value a)) \<longrightarrow>
          (\<forall>v. map_of (qs_answers (summary_questions (summarize f rs) ! i)) v =
            (if [r \<leftarrow> rs. map_option answer_value
                    (find (\<lambda>a. questionId a = q_id (questions f ! i)) (answers r)) = Some v] = []
             then None
             else Some (Count (length [r \<leftarrow> rs. map_option answer_value
                    (find (\<lambda>a. questionId a = q_id (questions f ! i)) (answers r)) = Some v])))) \<and>
          ((\<forall>r\<in>set rs. distinct (map questionId (answers r))) \<longrightarrow>
           (\<forall>v. map_of (qs_answers (summary_questions (summarize f rs) ! i)) v =
             (if [a \<leftarrow> concat (map answers rs).
                    questionId a = q_id (questions f ! i) \<and> answer_value a = v] = []
              then None
              else Some (Count (length [a \<leftarrow> concat (map answers rs).
                    questionId a = q_id (questions f ! i) \<and> answer_value a = v]))))))))"
  apply (intro conjI allI impI)
  subgoal by (simp add: summarize_def)
  subgoal by (simp add: summarize_def)
  subgoal by (simp add: summarize_def summarize_question_eq)
  subgoal by (simp add: summarize_def summarize_question_eq)
  subgoal by (simp add: summarize_def summarize_question_eq)
  subgoal by (simp add: summarize_def summarize_question_eq length_chosen)
  subgoal by (simp add: summarize_def summarize_question_eq)
  subgoal by (simp add: summarize_def summarize_question_eq distinct_tally)
  subgoal premises p for i v
  proof -
    have "\<forall>x\<in>set (chosen (questions f ! i) rs). \<not> inherited_name x"
      using p(3) by (blast dest: set_chosen)
    then show ?thesis
      using p(1) by (simp add: summarize_def summarize_question_eq map_of_tally_plain
          count_chosen p(2))
  qed
  subgoal premises p for i v
  proof -
    let ?A = "[a \<leftarrow> concat (map answers rs).
                questionId a = q_id (questions f ! i) \<and> answer_value a = v]"
    let ?B = "[r \<leftarrow> rs. map_option answer_value
                (find (\<lambda>a. questionId a = q_id (questions f ! i)) (answers r)) = Some v]"
    have eq: "length ?A = length ?B"
      using p(4) by (rule occurrences_count)
    have iff: "(?A = []) = (?B = [])"
      by (simp only: length_0_conv [symmetric] eq)
    have "\<forall>x\<in>set (chosen (questions f ! i) rs). \<not> inherited_name x"
      using p(3) by (blast dest: set_chosen)
    then have "map_of (qs_answers (summary_questions (summarize f rs) ! i)) v =
        (if ?B = [] then None else Some (Count (length ?B)))"
      using p(1) by (simp add: summarize_def summarize_question_eq map_of_tally_plain
          count_chosen p(2))
    then show ?thesis
      by (simp only: eq iff)
  qed
  done

text \<open>
  Three responses to the survey; the second holds two answers to the choice question and
  none to the text question.
\<close>

theorem summary_contents_witness:
  "totalResponses (summarize survey three_responses) = 3 \<and>
   map qs_questionId (summary_questions (summarize survey three_responses))
     = [q_id q_rating, q_id q_comment] \<and>
   map totalAnswers (summary_questions (summarize survey three_responses)) = [3, 2] \<and>
   map qs_answers (summary_questions (summarize survey three_responses))
     = [[(''A'', Count 1), (''B'', Count 2)], []]"
  using summary_contents [of survey three_responses]
  by (simp add: summary_defs sample_defs three_responses_def)

text \<open>
  Claim C4 as stated fails: a value is counted once per response, through the first answer
  that carries the id of the question.  The second of the three responses is one that the
  submission route accepts; it answers the choice question twice, with B and with A.  The
  value A occurs in two answers to the question, and the tally maps it to 1.
\<close>

theorem summary_contents_counterexample:
  "q_type q_rating = MultipleChoice \<and>
   fst (submit sample_validators (store_of survey [])
          (request None [raw (q_id q_rating) ''B'', raw (q_id q_rating) ''A'']))
     = Accepted (three_responses ! 1) \<and>
   length [a \<leftarrow> concat (map answers three_responses).
             questionId a = q_id q_rating \<and> answer_value a = ''A''] = 2 \<and>
   map_of (qs_answers (summary_questions (summarize survey three_responses) ! 0)) ''A''
     = Some (Count 1)"
  by (simp add: submit_defs summary_defs sample_defs three_responses_def)

text \<open>
  The tally for values that name inherited properties: \<open>constructor\<close> is mapped to a
  string, \<open>__proto__\<close> is no key at all; both responses are counted in \<open>totalAnswers\<close>.
\<close>

lemma inherited_name_tally:
  "summarize_question q_rating
     [stored None [rating ''constructor''], stored None [rating ''__proto__'']]
   = \<lparr>qs_questionId = q_id q_rating, qs_questionText = ''Rating'',
      qs_questionType = MultipleChoice, totalAnswers = 2,
      qs_answers = [(''constructor'', Text ''function Object() { [native code] }1'')]\<rparr>"
  by (simp add: summary_defs sample_defs)



section \<open>The public URL of a form\<close>

lemma pre_save_assigns: "has_slug (pre_save now rnd f)"
  by (simp add: pre_save_def has_slug_def)

lemma pre_save_keeps: "has_slug f \<Longrightarrow> pre_save now rnd f = f"
  by (auto simp: pre_save_def has_slug_def)

lemma pre_save_f_id: "f_id (pre_save now rnd f) = f_id f"
  by (simp add: pre_save_def)

lemma create_form_saved:
  assumes "create_form L accepts now rnd new_id user d b = (FormSaved f, d')"
  shows "publicUrl f = Some (''form-'' @ now @ ''-'' @ rnd) \<and> f_id f = new_id \<and>
         forms d' = forms d @ [f]"
  using assms
  by (auto simp: create_form_def Let_def pre_save_def split: if_splits option.splits)

lemma create_form_forms:
  "forms (snd (create_form L accepts now rnd new_id user d b)) = forms d \<or>
   (\<exists>f. has_slug f \<and> forms (snd (create_form L accepts now rnd new_id user d b)) = forms d @ [f])"
  by (auto simp: create_form_def Let_def pre_save_assigns split: option.splits)

lemma find_position:
  "find P xs = Some x \<Longrightarrow> position P xs < length xs \<and> xs ! position P xs = x"
  unfolding position_def by (induction xs) (auto split: if_splits)

lemma slug_of_assign_fields: "slug_of (assign_fields L b f) = slug_of f"
  by (simp add: assign_fields_def slug_of_def Let_def split: option.splits)

lemma save_update_forms:
  assumes "i < length (forms d)" and "slug_of f = slug_of (forms d ! i)" and "has_slug f"
  shows "map slug_of (forms (snd (save_update accepts now rnd d i f))) = map slug_of (forms d)"
  using assms
  by (simp add: save_update_def Let_def pre_save_keeps map_update list_update_same_conv)

lemma update_form_forms:
  assumes "list_all has_slug (forms d)"
  shows "map slug_of (forms (snd (update_form L accepts now rnd fid user d b))) = map slug_of (forms d)"
proof (cases "find (owned_by fid user) (forms d)")
  case None
  then show ?thesis by (simp add: update_form_def)
next
  case (Some f)
  let ?i = "position (owned_by fid user) (forms d)"
  from find_position [OF Some] have i: "?i < length (forms d)" "forms d ! ?i = f"
    by simp_all
  with assms have hs: "has_slug f"
    by (auto simp: list_all_iff)
  have keep: "map slug_of (forms (snd (save_update accepts now rnd d ?i g))) = map slug_of (forms d)"
    if "slug_of g = slug_of f" for g
  proof -
    from that hs have "has_slug g" by (simp add: slug_of_def has_slug_def)
    with that i show ?thesis by (simp add: save_update_forms)
  qed
  have "slug_of (assign_fields L b f\<lparr>questions := qs\<rparr>) = slug_of f" for qs
    using slug_of_assign_fields [of L b f] by (simp add: slug_of_def)
  then show ?thesis
    using Some
    by (simp add: update_form_def Let_def keep slug_of_assign_fields split: option.splits)
qed

lemma has_slug_slug_of: "slug_of f = slug_of g \<Longrightarrow> has_slug f = has_slug g"
  by (simp add: slug_of_def has_slug_def)

lemma list_all_has_slug_cong:
  "map slug_of xs = map slug_of ys \<Longrightarrow> list_all has_slug xs = list_all has_slug ys"
proof (induction xs arbitrary: ys)
  case Nil
  then show ?case by simp
next
  case (Cons x xs)
  then obtain y ys' where "ys = y # ys'" by (cases ys) auto
  with Cons show ?case by (auto dest: has_slug_slug_of)
qed

lemma step_forms:
  assumes "list_all has_slug (forms d)"
  shows "list_all has_slug (forms (step L accepts d ev)) \<and>
         take (length (forms d)) (map slug_of (forms (step L accepts d ev))) = map slug_of (forms d)"
proof (cases ev)
  case (CreateForm now rnd new_id user b)
  with assms create_form_forms [of L accepts now rnd new_id user d b]
  show ?thesis by auto
next
  case (UpdateForm now rnd fid user b)
  with assms update_form_forms [OF assms, of L accepts now rnd fid user b]
    list_all_has_slug_cong [of "forms (snd (update_form L accepts now rnd fid user d b))" "forms d"]
  show ?thesis by simp
qed

lemma run_forms:
  assumes "list_all has_slug (forms d)"
  shows "list_all has_slug (forms (run L accepts d evs)) \<and>
         take (length (forms d)) (map slug_of (forms (run L accepts d evs))) = map slug_of (forms d)"
  using assms
proof (induction evs arbitrary: d)
  case Nil
  then show ?case by (simp add: run_def)
next
  case (Cons ev evs)
  let ?d = "step L accepts d ev"
  from step_forms [OF Cons.prems] have s: "list_all has_slug (forms ?d)"
    "take (length (forms d)) (map slug_of (forms ?d)) = map slug_of (forms d)"
    by simp_all
  from Cons.IH [OF s(1)] have r: "list_all has_slug (forms (run L accepts ?d evs))"
    "take (length (forms ?d)) (map slug_of (forms (run L accepts ?d evs))) = map slug_of (forms ?d)"
    by simp_all
  have le: "length (forms d) \<le> length (forms ?d)"
    using s(2) by (metis length_map length_take min.cobounded2 min_def nat_le_linear)
  have "take (length (forms d)) (map slug_of (forms (run L accepts ?d evs))) =
        take (length (forms d)) (take (length (forms ?d)) (map slug_of (forms (run L accepts ?d evs))))"
    using le by (simp add: min_def)
  also have "\<dots> = map slug_of (forms d)"
    using r(2) s(2) by simp
  finally show ?case using r(1) by (simp add: run_def)
qed

text \<open>
  Claim C8.  The form that the creation route saves has the \<open>publicUrl\<close> generated at
  that save.  The hook leaves a form that has one as it is.  In every store that a
  history of creations and updates reaches from the empty store each form has a
  \<open>publicUrl\<close>, and whatever creations and updates follow, the forms of the store keep
  their place, their id and their \<open>publicUrl\<close>.
\<close>

theorem publicUrl_assigned_once:
  "(create_form L accepts now rnd new_id user d b = (FormSaved f, d') \<longrightarrow>
      publicUrl f = Some (''form-'' @ now @ ''-'' @ rnd) \<and> forms d' = forms d @ [f]) \<and>
   (has_slug f \<longrightarrow> pre_save now rnd f = f) \<and>
   list_all has_slug (forms (run L accepts empty_db evs)) \<and>
   take (length (forms (run L accepts empty_db evs)))
     (map slug_of (forms (run L accepts (run L accepts empty_db evs) evs'))) =
   map slug_of (forms (run L accepts empty_db evs))"
proof -
  have "list_all has_slug (forms (run L accepts empty_db evs))"
    using run_forms [of empty_db L accepts evs] by (simp add: empty_db_def)
  then show ?thesis
    using run_forms [of "run L accepts empty_db evs" L accepts evs'] create_form_saved
      pre_save_keeps
    by blast
qed

text \<open>
  The survey is created, then renamed and deactivated at a later time with another
  random string: its \<open>publicUrl\<close> is the one of the creation.
\<close>

theorem publicUrl_assigned_once_witness:
  "run sample_validators accept_all empty_db
        [CreateForm ''1700000000000'' ''k3j9x0a1b'' (f_id survey) (creator survey) new_survey]
     = store_of survey [] \<and>
   publicUrl survey = Some ''form-1700000000000-k3j9x0a1b'' \<and>
   run sample_validators accept_all (store_of survey [])
        [UpdateForm ''1800000000000'' ''zzzzzzzzz'' (f_id survey) (creator survey) rename]
     = store_of (survey\<lparr>title := ''Renamed'', isActive := False\<rparr>) [] \<and>
   publicUrl (survey\<lparr>title := ''Renamed'', isActive := False\<rparr>)
     = Some ''form-1700000000000-k3j9x0a1b''"
proof -
  have c: "run sample_validators accept_all empty_db
        [CreateForm ''1700000000000'' ''k3j9x0a1b'' (f_id survey) (creator survey) new_survey]
     = store_of survey []"
    by (simp add: form_defs sample_defs enumerate_eq_zip Let_def)
  have u: "run sample_validators accept_all (store_of survey [])
        [UpdateForm ''1800000000000'' ''zzzzzzzzz'' (f_id survey) (creator survey) rename]
     = store_of (survey\<lparr>title := ''Renamed'', isActive := False\<rparr>) []"
    by (simp add: form_defs sample_defs Let_def)
  have "take (length (forms (store_of survey [])))
          (map slug_of (forms (store_of (survey\<lparr>title := ''Renamed'', isActive := False\<rparr>) [])))
        = map slug_of (forms (store_of survey []))"
    using publicUrl_assigned_once [where L = sample_validators and accepts = accept_all
      and evs = "[CreateForm ''1700000000000'' ''k3j9x0a1b'' (f_id survey) (creator survey) new_survey]"
      and evs' = "[UpdateForm ''1800000000000'' ''zzzzzzzzz'' (f_id survey) (creator survey) rename]"
      and now = "''1700000000000''" and rnd = "''k3j9x0a1b''" and new_id = "f_id survey"
      and user = "creator survey" and d = empty_db and b = new_survey and f = survey
      and d' = "store_of survey []"]
    unfolding c u by (elim conjE)
  then have "publicUrl (survey\<lparr>title := ''Renamed'', isActive := False\<rparr>) = publicUrl survey"
    by (simp add: store_of_def slug_of_def)
  moreover have "publicUrl survey = Some ''form-1700000000000-k3j9x0a1b''"
    by (simp add: survey_def)
  ultimately show ?thesis using c u by simp
qed

end
